theory Spec2Isabelle
  imports Main "HOL-Library.AList"
begin

section \<open>Python values handled by the sensor\<close>

text \<open>
  The value returned by \<^verbatim>\<open>response.json()\<close> and by \<^verbatim>\<open>json.loads\<close> is a Python
  \<^verbatim>\<open>list\<close>, a \<^verbatim>\<open>dict\<close> with string keys, or one of \<^verbatim>\<open>None\<close>, \<^verbatim>\<open>bool\<close>, \<^verbatim>\<open>int\<close>,
  \<^verbatim>\<open>float\<close>, \<^verbatim>\<open>str\<close>. Floating point numbers are kept abstract: the type \<open>'f\<close> stands
  for Python's \<^verbatim>\<open>float\<close>, and its \<^verbatim>\<open>str\<close> is a parameter of everything that prints one.
  A \<^verbatim>\<open>dict\<close> is an association list in insertion order; a Python dict never holds a key
  twice, and on such a list \<open>map_of\<close> is the dict's lookup.
\<close>

datatype 'f scalar =
    PyNone
  | PyBool bool
  | PyInt int
  | PyFloat 'f
  | PyStr string

datatype 'f json =
    JList "'f json list"
  | JDict "(string \<times> 'f json) list"
  | JScalar "'f scalar"

type_synonym 'f dict = "(string \<times> 'f json) list"

fun is_scalar :: "'f json \<Rightarrow> bool" where
  "is_scalar (JScalar _) = True"
| "is_scalar _ = False"

subsection \<open>Exceptions\<close>

text \<open>
  Three classes of raised objects matter to the handlers of \<^verbatim>\<open>async_update\<close>:
  \<^verbatim>\<open>aiohttp.ClientError\<close> (a subclass of \<^verbatim>\<open>Exception\<close>), every other subclass of
  \<^verbatim>\<open>Exception\<close> (\<^verbatim>\<open>asyncio.TimeoutError\<close>, \<^verbatim>\<open>ValueError\<close>, \<^verbatim>\<open>KeyError\<close>, a template error),
  and objects that derive from \<^verbatim>\<open>BaseException\<close> only, which \<^verbatim>\<open>except Exception\<close> does
  not catch. Each carries the text that \<^verbatim>\<open>str(err)\<close> gives.
\<close>

datatype exn =
    ClientError string
  | Exception string
  | BaseException string

fun isinstance_Exception :: "exn \<Rightarrow> bool" where
  "isinstance_Exception (ClientError _) = True"
| "isinstance_Exception (Exception _) = True"
| "isinstance_Exception (BaseException _) = False"

fun exn_str :: "exn \<Rightarrow> string" where
  "exn_str (ClientError m) = m"
| "exn_str (Exception m) = m"
| "exn_str (BaseException m) = m"

subsection \<open>Built-ins: \<^verbatim>\<open>str\<close>, \<^verbatim>\<open>in\<close>, subscription\<close>

definition digit_char :: "nat \<Rightarrow> char" where
  "digit_char d = ''0123456789'' ! d"

fun str_nat :: "nat \<Rightarrow> string" where
  "str_nat n = (if n < 10 then [digit_char n] else str_nat (n div 10) @ [digit_char (n mod 10)])"

declare str_nat.simps [simp del]

definition str_int :: "int \<Rightarrow> string" where
  "str_int i = (if i < 0 then CHR ''-'' # str_nat (nat (- i)) else str_nat (nat i))"

text \<open>\<^verbatim>\<open>str(x)\<close> on the values that are neither a list nor a dict.\<close>

fun py_str :: "('f \<Rightarrow> string) \<Rightarrow> 'f scalar \<Rightarrow> string" where
  "py_str fstr PyNone = ''None''"
| "py_str fstr (PyBool b) = (if b then ''True'' else ''False'')"
| "py_str fstr (PyInt i) = str_int i"
| "py_str fstr (PyFloat x) = fstr x"
| "py_str fstr (PyStr s) = s"

text \<open>\<^verbatim>\<open>k in d\<close> and \<^verbatim>\<open>d[k]\<close>; the subscription raises \<^verbatim>\<open>KeyError\<close> on a missing key.\<close>

definition dict_contains :: "string \<Rightarrow> (string \<times> 'v) list \<Rightarrow> bool" where
  "dict_contains k d = (k \<in> set (map fst d))"

definition dict_getitem :: "(string \<times> 'v) list \<Rightarrow> string \<Rightarrow> exn + 'v" where
  "dict_getitem d k = (case map_of d k of None \<Rightarrow> Inl (Exception (CHR 0x27 # k @ [CHR 0x27])) | Some v \<Rightarrow> Inr v)"

section \<open>The store of header dicts\<close>

text \<open>
  The header mapping is a mutable dict that the caller of the constructor keeps a
  reference to, so header dicts live in a store and are named by their address (the index
  in the store). \<^verbatim>\<open>d.copy()\<close> allocates a new dict with the same items, and
  \<^verbatim>\<open>d[k] = v\<close> updates the dict at an address in place: an existing key keeps its
  position, a new key goes to the end.
\<close>

type_synonym headers = "(string \<times> string) list"
type_synonym addr = nat
type_synonym heap = "headers list"

definition dict_copy :: "heap \<Rightarrow> addr \<Rightarrow> addr \<times> heap" where
  "dict_copy h a = (length h, h @ [h ! a])"

definition dict_setitem :: "heap \<Rightarrow> addr \<Rightarrow> string \<Rightarrow> string \<Rightarrow> heap" where
  "dict_setitem h a k v = h[a := AList.update k v (h ! a)]"

section \<open>The sensor\<close>

text \<open>
  The fields of \<^verbatim>\<open>JsonApiSensor\<close>, \<^verbatim>\<open>self._name\<close> as \<open>s_name\<close> and so on. The session
  and the \<^verbatim>\<open>hass\<close> handle are external collaborators; what they do is the environment
  below. \<open>s_state\<close> is a Python value: \<^verbatim>\<open>None\<close> at first, then whatever a poll stores.
\<close>

record 'f sensor =
  s_name :: string
  s_url :: string
  s_authorization :: "string option"
  s_headers :: addr
  s_state :: "'f json"
  s_attributes :: "'f dict"
  s_available :: bool
  s_scan_interval :: int
  s_attributes_template :: "string option"

text \<open>\<^verbatim>\<open>__init__\<close>: the headers are copied, then the copy gets the authorization entry.\<close>

definition init ::
  "string \<Rightarrow> string \<Rightarrow> string option \<Rightarrow> addr \<Rightarrow> int \<Rightarrow> string option \<Rightarrow> heap
     \<Rightarrow> 'f sensor \<times> heap" where
  "init name url authorization headers scan_interval attributes_template h =
     (let (a, h1) = dict_copy h headers;
          self = \<lparr> s_name = name, s_url = url, s_authorization = authorization,
                   s_headers = a, s_state = JScalar PyNone, s_attributes = [],
                   s_available = True, s_scan_interval = scan_interval,
                   s_attributes_template = attributes_template \<rparr>
      in case s_authorization self of
           None \<Rightarrow> (self, h1)
         | Some v \<Rightarrow>
             if v \<noteq> [] then (self, dict_setitem h1 (s_headers self) ''Authorization'' v)
             else (self, h1))"

text \<open>The properties the host reads.\<close>

definition state :: "'f sensor \<Rightarrow> 'f json" where
  "state self = s_state self"

definition extra_state_attributes :: "'f sensor \<Rightarrow> 'f dict" where
  "extra_state_attributes self = s_attributes self"

definition available :: "'f sensor \<Rightarrow> bool" where
  "available self = s_available self"

section \<open>The three normalization fragments of \<^verbatim>\<open>async_update\<close>\<close>

text \<open>
  Each fragment assigns \<^verbatim>\<open>self._state\<close> and \<^verbatim>\<open>self._attributes\<close>. The only operation
  in them that can raise is the subscription, and it comes before the assignment of its
  branch, so a fragment either raises with \<^verbatim>\<open>self\<close> untouched or returns the updated
  sensor.
\<close>

text \<open>Lines 123-136: the fragment applied to the parsed template output.\<close>

fun normalize_rendered :: "('f \<Rightarrow> string) \<Rightarrow> 'f json \<Rightarrow> 'f sensor \<Rightarrow> exn + 'f sensor" where
  "normalize_rendered fstr (JList processed_data) self =
     Inr (self\<lparr> s_state := JScalar (PyInt (int (length processed_data))),
                s_attributes := [(''items'', JList processed_data)] \<rparr>)"
| "normalize_rendered fstr (JDict processed_data) self =
     (if dict_contains ''count'' processed_data then
        (case dict_getitem processed_data ''count'' of
           Inl err \<Rightarrow> Inl err
         | Inr v \<Rightarrow> Inr (self\<lparr> s_state := v, s_attributes := processed_data \<rparr>))
      else if dict_contains ''total'' processed_data then
        (case dict_getitem processed_data ''total'' of
           Inl err \<Rightarrow> Inl err
         | Inr v \<Rightarrow> Inr (self\<lparr> s_state := v, s_attributes := processed_data \<rparr>))
      else Inr (self\<lparr> s_state := JScalar (PyStr ''OK''), s_attributes := processed_data \<rparr>))"
| "normalize_rendered fstr (JScalar processed_data) self =
     Inr (self\<lparr> s_state := JScalar (PyStr (py_str fstr processed_data)),
                s_attributes := [(''raw'', JScalar processed_data)] \<rparr>)"

text \<open>Lines 140-153: the fragment of the \<^verbatim>\<open>except\<close> branch, on the fetched value.\<close>

fun normalize_fallback :: "('f \<Rightarrow> string) \<Rightarrow> 'f json \<Rightarrow> 'f sensor \<Rightarrow> exn + 'f sensor" where
  "normalize_fallback fstr (JList data) self =
     Inr (self\<lparr> s_state := JScalar (PyInt (int (length data))),
                s_attributes := [(''items'', JList data)] \<rparr>)"
| "normalize_fallback fstr (JDict data) self =
     (if dict_contains ''count'' data then
        (case dict_getitem data ''count'' of
           Inl err \<Rightarrow> Inl err
         | Inr v \<Rightarrow> Inr (self\<lparr> s_state := v, s_attributes := data \<rparr>))
      else if dict_contains ''total'' data then
        (case dict_getitem data ''total'' of
           Inl err \<Rightarrow> Inl err
         | Inr v \<Rightarrow> Inr (self\<lparr> s_state := v, s_attributes := data \<rparr>))
      else Inr (self\<lparr> s_state := JScalar (PyStr ''OK''), s_attributes := data \<rparr>))"
| "normalize_fallback fstr (JScalar data) self =
     Inr (self\<lparr> s_state := JScalar (PyStr (py_str fstr data)),
                s_attributes := [(''raw'', JScalar data)] \<rparr>)"

text \<open>Lines 156-169: the fragment without a template, on the fetched value.\<close>

fun normalize_default :: "('f \<Rightarrow> string) \<Rightarrow> 'f json \<Rightarrow> 'f sensor \<Rightarrow> exn + 'f sensor" where
  "normalize_default fstr (JList data) self =
     Inr (self\<lparr> s_state := JScalar (PyInt (int (length data))),
                s_attributes := [(''items'', JList data)] \<rparr>)"
| "normalize_default fstr (JDict data) self =
     (if dict_contains ''count'' data then
        (case dict_getitem data ''count'' of
           Inl err \<Rightarrow> Inl err
         | Inr v \<Rightarrow> Inr (self\<lparr> s_state := v, s_attributes := data \<rparr>))
      else if dict_contains ''total'' data then
        (case dict_getitem data ''total'' of
           Inl err \<Rightarrow> Inl err
         | Inr v \<Rightarrow> Inr (self\<lparr> s_state := v, s_attributes := data \<rparr>))
      else Inr (self\<lparr> s_state := JScalar (PyStr ''OK''), s_attributes := data \<rparr>))"
| "normalize_default fstr (JScalar data) self =
     Inr (self\<lparr> s_state := JScalar (PyStr (py_str fstr data)),
                s_attributes := [(''raw'', JScalar data)] \<rparr>)"

section \<open>The poll cycle\<close>

text \<open>
  What the outside world answers during one call of \<^verbatim>\<open>async_update\<close>: the HTTP GET
  of the session (which returns a response or raises, a timeout included), the template
  engine (\<^verbatim>\<open>str(tpl.async_render({'value_json': data}))\<close>, which returns the rendered
  text or raises), \<^verbatim>\<open>json.loads\<close>, and \<^verbatim>\<open>str\<close> on a float.
\<close>

record 'f response =
  status :: int
  json_body :: "exn + 'f json"

record 'f env =
  session_get :: "string \<Rightarrow> headers \<Rightarrow> exn + 'f response"
  async_render :: "string \<Rightarrow> 'f json \<Rightarrow> exn + string"
  json_loads :: "string \<Rightarrow> exn + 'f json"
  float_str :: "'f \<Rightarrow> string"

text \<open>
  What one call does to the outside world, in order: the request it issues and the lines
  it gives to the logger.
\<close>

datatype event =
    GET string headers
  | Debug string
  | Error string

text \<open>
  Lines 109-136, the body of the inner \<^verbatim>\<open>try\<close>. Rendering and parsing come before any
  assignment to \<^verbatim>\<open>self\<close>, so when the body raises, \<^verbatim>\<open>self\<close> is as it was.
\<close>

definition try_template ::
  "'f env \<Rightarrow> string \<Rightarrow> 'f json \<Rightarrow> 'f sensor \<Rightarrow> event list \<times> (exn + 'f sensor)" where
  "try_template env tpl data self =
     (case async_render env tpl data of
        Inl err \<Rightarrow> ([Debug ''Applying attributes_template to data''], Inl err)
      | Inr rendered_str \<Rightarrow>
          (case json_loads env rendered_str of
             Inl err \<Rightarrow>
               ([Debug ''Applying attributes_template to data'',
                 Debug (''Template rendered: '' @ take 200 rendered_str)], Inl err)
           | Inr processed_data \<Rightarrow>
               ([Debug ''Applying attributes_template to data'',
                 Debug (''Template rendered: '' @ take 200 rendered_str),
                 Debug ''Template processing successful''],
                normalize_rendered (float_str env) processed_data self)))"

text \<open>
  Lines 107-169: the template when one is configured (an empty template string is falsy,
  as \<^verbatim>\<open>None\<close> is), with the \<^verbatim>\<open>except Exception\<close> handler of lines 137-153.
\<close>

definition process_data ::
  "'f env \<Rightarrow> 'f json \<Rightarrow> 'f sensor \<Rightarrow> event list \<times> (exn + 'f sensor)" where
  "process_data env data self =
     (case s_attributes_template self of
        None \<Rightarrow> ([], normalize_default (float_str env) data self)
      | Some tpl \<Rightarrow>
          if tpl \<noteq> [] then
            (case try_template env tpl data self of
               (lg, Inr self') \<Rightarrow> (lg, Inr self')
             | (lg, Inl err) \<Rightarrow>
                 if isinstance_Exception err then
                   (lg @ [Error (''Error processing attributes_template: '' @ exn_str err)],
                    normalize_fallback (float_str env) data self)
                 else (lg, Inl err))
          else ([], normalize_default (float_str env) data self))"

text \<open>Lines 97-175, the body of the outer \<^verbatim>\<open>try\<close>.\<close>

definition try_fetch ::
  "'f env \<Rightarrow> heap \<Rightarrow> 'f sensor \<Rightarrow> event list \<times> (exn + 'f sensor)" where
  "try_fetch env h self =
     (case session_get env (s_url self) (h ! s_headers self) of
        Inl err \<Rightarrow> ([GET (s_url self) (h ! s_headers self)], Inl err)
      | Inr response \<Rightarrow>
          if status response = 200 then
            (case json_body response of
               Inl err \<Rightarrow> ([GET (s_url self) (h ! s_headers self)], Inl err)
             | Inr data \<Rightarrow>
                 (case process_data env data self of
                    (lg, Inl err) \<Rightarrow> (GET (s_url self) (h ! s_headers self) # lg, Inl err)
                  | (lg, Inr self') \<Rightarrow>
                      (GET (s_url self) (h ! s_headers self) # lg @
                         [Debug (''Successfully fetched data from '' @ s_url self)],
                       Inr (self'\<lparr> s_available := True \<rparr>))))
          else
            ([GET (s_url self) (h ! s_headers self),
              Error (''Error fetching data: HTTP '' @ str_int (status response))],
             Inr (self\<lparr> s_available := False \<rparr>)))"

text \<open>
  \<^verbatim>\<open>async_update\<close>: the two handlers of the outer \<^verbatim>\<open>try\<close>. An exception reaches them
  only from a point where \<^verbatim>\<open>self\<close> has not been assigned yet. The result is \<open>Inl\<close> when
  an exception leaves the method.
\<close>

definition async_update ::
  "'f env \<Rightarrow> heap \<Rightarrow> 'f sensor \<Rightarrow> event list \<times> (exn + 'f sensor)" where
  "async_update env h self =
     (case try_fetch env h self of
        (lg, Inr self') \<Rightarrow> (lg, Inr self')
      | (lg, Inl (ClientError m)) \<Rightarrow>
          (lg @ [Error (''Error fetching data from '' @ s_url self @ '': '' @ m)],
           Inr (self\<lparr> s_available := False \<rparr>))
      | (lg, Inl (Exception m)) \<Rightarrow>
          (lg @ [Error (''Unexpected error: '' @ m)], Inr (self\<lparr> s_available := False \<rparr>))
      | (lg, Inl (BaseException m)) \<Rightarrow> (lg, Inl (BaseException m)))"

section \<open>The normalizer of the specification\<close>

text \<open>
  The specification describes one function \<open>normalize(value) -> (primary_value, attributes)\<close>
  with the precedence: a sequence gives its length and \<open>{"items": value}\<close>; a mapping gives
  the value under \<open>count\<close>, else the value under \<open>total\<close>, else \<open>"OK"\<close>, with the mapping
  itself as attributes; any other value gives its string and \<open>{"raw": value}\<close>.
\<close>

definition spec_primary_value :: "('f \<Rightarrow> string) \<Rightarrow> 'f json \<Rightarrow> 'f json" where
  "spec_primary_value fstr v =
     (case v of
        JList xs \<Rightarrow> JScalar (PyInt (int (length xs)))
      | JDict kvs \<Rightarrow>
          (case map_of kvs ''count'' of
             Some c \<Rightarrow> c
           | None \<Rightarrow> (case map_of kvs ''total'' of Some t \<Rightarrow> t | None \<Rightarrow> JScalar (PyStr ''OK'')))
      | JScalar x \<Rightarrow> JScalar (PyStr (py_str fstr x)))"

definition spec_attributes :: "'f json \<Rightarrow> 'f dict" where
  "spec_attributes v =
     (case v of
        JList xs \<Rightarrow> [(''items'', v)]
      | JDict kvs \<Rightarrow> kvs
      | JScalar x \<Rightarrow> [(''raw'', v)])"

definition spec_normalize :: "('f \<Rightarrow> string) \<Rightarrow> 'f json \<Rightarrow> 'f json \<times> 'f dict" where
  "spec_normalize fstr v = (spec_primary_value fstr v, spec_attributes v)"

section \<open>Sample inputs\<close>

text \<open>
  A world without floats, a sensor without template and one with a template, a store
  whose only dict is the empty header mapping of these sensors, and a payload.
\<close>

definition unit_str :: "unit \<Rightarrow> string" where
  "unit_str u = ''0.0''"

definition sensor0 :: "unit sensor" where
  "sensor0 = \<lparr> s_name = ''JSON API Sensor'', s_url = ''http://api.example/v1'',
               s_authorization = None, s_headers = 0, s_state = JScalar PyNone,
               s_attributes = [], s_available = True, s_scan_interval = 300,
               s_attributes_template = None \<rparr>"

definition sensor_tpl :: "unit sensor" where
  "sensor_tpl = sensor0\<lparr> s_state := JScalar (PyInt 4),
                          s_attributes := [(''count'', JScalar (PyInt 4))],
                          s_attributes_template := Some ''{{ value_json.data }}'' \<rparr>"

definition heap0 :: heap where
  "heap0 = [[]]"

definition payload0 :: "unit json" where
  "payload0 = JDict [(''total'', JScalar (PyInt 17)), (''region'', JScalar (PyStr ''eu''))]"

text \<open>
  Environments: the endpoint answers 200 with the payload and the template engine raises;
  the same with a rendered text that is not JSON; the connection is refused; the endpoint
  answers 500; the endpoint answers 200 with a body that is not JSON.
\<close>

definition env_render_raises :: "unit env" where
  "env_render_raises =
     \<lparr> session_get = (\<lambda>url hs. Inr \<lparr> status = 200, json_body = Inr payload0 \<rparr>),
       async_render = (\<lambda>tpl v. Inl (Exception ''UndefinedError'')),
       json_loads = (\<lambda>txt. Inl (Exception ''Expecting value'')),
       float_str = unit_str \<rparr>"

definition env_render_not_json :: "unit env" where
  "env_render_not_json =
     \<lparr> session_get = (\<lambda>url hs. Inr \<lparr> status = 200, json_body = Inr payload0 \<rparr>),
       async_render = (\<lambda>tpl v. Inr ''unknown''),
       json_loads = (\<lambda>txt. Inl (Exception ''Expecting value'')),
       float_str = unit_str \<rparr>"

definition env_refused :: "unit env" where
  "env_refused =
     \<lparr> session_get = (\<lambda>url hs. Inl (ClientError ''Cannot connect to host'')),
       async_render = (\<lambda>tpl v. Inr ''[]''),
       json_loads = (\<lambda>txt. Inr (JList [])),
       float_str = unit_str \<rparr>"

definition env_http_500 :: "unit env" where
  "env_http_500 =
     \<lparr> session_get = (\<lambda>url hs. Inr \<lparr> status = 500, json_body = Inr (JList []) \<rparr>),
       async_render = (\<lambda>tpl v. Inr ''[]''),
       json_loads = (\<lambda>txt. Inr (JList [])),
       float_str = unit_str \<rparr>"

definition env_body_not_json :: "unit env" where
  "env_body_not_json =
     \<lparr> session_get =
         (\<lambda>url hs. Inr \<lparr> status = 200, json_body = Inl (Exception ''Expecting value'') \<rparr>),
       async_render = (\<lambda>tpl v. Inr ''[]''),
       json_loads = (\<lambda>txt. Inr (JList [])),
       float_str = unit_str \<rparr>"

text \<open>
  A store in which the caller's header mapping already has an \<open>Authorization\<close> entry, and
  two constructions on it: with the authorization \<open>Bearer xyz\<close> and with the empty string.
\<close>

definition heap_foo :: heap where
  "heap_foo = [[(''Authorization'', ''foo'')]]"

definition init_bearer :: "unit sensor \<times> heap" where
  "init_bearer =
     init ''JSON API Sensor'' ''http://api.example/v1'' (Some ''Bearer xyz'') 0 300 None heap_foo"

definition init_empty_auth :: "unit sensor \<times> heap" where
  "init_empty_auth =
     init ''JSON API Sensor'' ''http://api.example/v1'' (Some []) 0 300 None heap_foo"

section \<open>Normalization\<close>

lemma dict_contains_map_of: "dict_contains k d \<longleftrightarrow> map_of d k \<noteq> None"
  by (simp add: dict_contains_def map_of_eq_None_iff)

lemma dict_getitem_Some: "map_of d k = Some v \<Longrightarrow> dict_getitem d k = Inr v"
  by (simp add: dict_getitem_def)

lemma normalize_default_dict_count:
  "map_of d ''count'' = Some v \<Longrightarrow>
   normalize_default fstr (JDict d) self = Inr (self\<lparr> s_state := v, s_attributes := d \<rparr>)"
  by (simp add: dict_contains_map_of dict_getitem_Some)

lemma normalize_default_dict_total:
  "map_of d ''count'' = None \<Longrightarrow> map_of d ''total'' = Some v \<Longrightarrow>
   normalize_default fstr (JDict d) self = Inr (self\<lparr> s_state := v, s_attributes := d \<rparr>)"
  by (simp add: dict_contains_map_of dict_getitem_Some)

lemma normalize_default_dict_neither:
  "map_of d ''count'' = None \<Longrightarrow> map_of d ''total'' = None \<Longrightarrow>
   normalize_default fstr (JDict d) self =
     Inr (self\<lparr> s_state := JScalar (PyStr ''OK''), s_attributes := d \<rparr>)"
  by (simp add: dict_contains_map_of)

lemma normalize_default_spec:
  "normalize_default fstr v self =
     Inr (self\<lparr> s_state := fst (spec_normalize fstr v),
                s_attributes := snd (spec_normalize fstr v) \<rparr>)"
  by (cases v)
     (auto simp: spec_normalize_def spec_primary_value_def spec_attributes_def
        dict_contains_map_of dict_getitem_def split: option.splits)

lemma normalize_fallback_spec:
  "normalize_fallback fstr v self =
     Inr (self\<lparr> s_state := fst (spec_normalize fstr v),
                s_attributes := snd (spec_normalize fstr v) \<rparr>)"
  by (cases v)
     (auto simp: spec_normalize_def spec_primary_value_def spec_attributes_def
        dict_contains_map_of dict_getitem_def split: option.splits)

lemma normalize_rendered_spec:
  "normalize_rendered fstr v self =
     Inr (self\<lparr> s_state := fst (spec_normalize fstr v),
                s_attributes := snd (spec_normalize fstr v) \<rparr>)"
  by (cases v)
     (auto simp: spec_normalize_def spec_primary_value_def spec_attributes_def
        dict_contains_map_of dict_getitem_def split: option.splits)

text \<open>
  Claim C1: on a JSON object, the fragment without template takes the value under the key
  \<open>count\<close> as primary value, whether or not \<open>total\<close> is present; without \<open>count\<close> it takes
  the value under \<open>total\<close>; without both it takes the string \<open>OK\<close>. In the three cases the
  attributes are the object itself, with all its keys and nothing else.
\<close>

theorem object_precedence:
  "(map_of obj ''count'' = Some v \<longrightarrow>
      normalize_default fstr (JDict obj) self =
        Inr (self\<lparr> s_state := v, s_attributes := obj \<rparr>))
   \<and> (map_of obj ''count'' = None \<and> map_of obj ''total'' = Some v \<longrightarrow>
      normalize_default fstr (JDict obj) self =
        Inr (self\<lparr> s_state := v, s_attributes := obj \<rparr>))
   \<and> (map_of obj ''count'' = None \<and> map_of obj ''total'' = None \<longrightarrow>
      normalize_default fstr (JDict obj) self =
        Inr (self\<lparr> s_state := JScalar (PyStr ''OK''), s_attributes := obj \<rparr>))"
  using normalize_default_dict_count [of obj v fstr self]
    normalize_default_dict_total [of obj v fstr self]
    normalize_default_dict_neither [of obj fstr self]
  by blast

theorem object_precedence_witness:
  "normalize_default unit_str
      (JDict [(''total'', JScalar (PyInt 17)), (''count'', JScalar (PyInt 3))]) sensor0 =
     Inr (sensor0\<lparr> s_state := JScalar (PyInt 3),
                   s_attributes := [(''total'', JScalar (PyInt 17)), (''count'', JScalar (PyInt 3))] \<rparr>)
   \<and> normalize_default unit_str
      (JDict [(''total'', JScalar (PyInt 17)), (''region'', JScalar (PyStr ''eu''))]) sensor0 =
     Inr (sensor0\<lparr> s_state := JScalar (PyInt 17),
                   s_attributes := [(''total'', JScalar (PyInt 17)), (''region'', JScalar (PyStr ''eu''))] \<rparr>)
   \<and> normalize_default unit_str (JDict [(''region'', JScalar (PyStr ''eu''))]) sensor0 =
     Inr (sensor0\<lparr> s_state := JScalar (PyStr ''OK''),
                   s_attributes := [(''region'', JScalar (PyStr ''eu''))] \<rparr>)"
proof -
  have a: "map_of [(''total'', JScalar (PyInt 17)), (''count'', JScalar (PyInt 3 :: unit scalar))]
             ''count'' = Some (JScalar (PyInt 3))"
    by simp
  have b: "map_of [(''total'', JScalar (PyInt 17)), (''region'', JScalar (PyStr ''eu'' :: unit scalar))]
             ''count'' = None
           \<and> map_of [(''total'', JScalar (PyInt 17)), (''region'', JScalar (PyStr ''eu'' :: unit scalar))]
             ''total'' = Some (JScalar (PyInt 17))"
    by simp
  have c: "map_of [(''region'', JScalar (PyStr ''eu'' :: unit scalar))] ''count'' = None
           \<and> map_of [(''region'', JScalar (PyStr ''eu'' :: unit scalar))] ''total'' = None"
    by simp
  from a b c show ?thesis
    using object_precedence
            [of "[(''total'', JScalar (PyInt 17)), (''count'', JScalar (PyInt 3))]"
                "JScalar (PyInt 3)" unit_str sensor0]
          object_precedence
            [of "[(''total'', JScalar (PyInt 17)), (''region'', JScalar (PyStr ''eu''))]"
                "JScalar (PyInt 17)" unit_str sensor0]
          object_precedence
            [of "[(''region'', JScalar (PyStr ''eu''))]" "JScalar PyNone" unit_str sensor0]
    by blast
qed

text \<open>
  Claim C2: on a JSON array, the fragment without template stores the length of the array,
  an integer, as primary value and the mapping with the single key \<open>items\<close> bound to the
  array itself as attributes.
\<close>

theorem array_length_items:
  "normalize_default fstr (JList A) self =
     Inr (self\<lparr> s_state := JScalar (PyInt (int (length A))),
                s_attributes := [(''items'', JList A)] \<rparr>)
   \<and> dict_getitem [(''items'', JList A)] ''items'' = Inr (JList A)"
  by (simp add: dict_getitem_def)

text \<open>
  Claim C3: on a scalar (\<open>None\<close>, a boolean, a number or a string), the fragment without
  template stores \<open>str\<close> of the scalar as primary value, a string, and the mapping with the
  single key \<open>raw\<close> bound to the scalar itself as attributes.
\<close>

theorem scalar_str_raw:
  "normalize_default fstr (JScalar x) self =
     Inr (self\<lparr> s_state := JScalar (PyStr (py_str fstr x)),
                s_attributes := [(''raw'', JScalar x)] \<rparr>)
   \<and> py_str fstr PyNone = ''None''
   \<and> py_str fstr (PyBool True) = ''True''
   \<and> py_str fstr (PyBool False) = ''False''
   \<and> py_str fstr (PyInt 17) = ''17''
   \<and> py_str fstr (PyInt (- 5)) = ''-5''
   \<and> py_str fstr (PyFloat y) = fstr y
   \<and> py_str fstr (PyStr ''hello'') = ''hello''"
  by (simp add: str_int_def str_nat.simps digit_char_def)

text \<open>
  Claim C7: the fragment run on the parsed template output, the fragment of the fallback
  after a render failure and the fragment without template are the same function of the
  value: each one returns, and stores the pair that the single normalizer of the
  specification gives for that value.
\<close>

theorem three_fragments_one_normalizer:
  "normalize_rendered fstr v self =
     Inr (self\<lparr> s_state := fst (spec_normalize fstr v),
                s_attributes := snd (spec_normalize fstr v) \<rparr>)
   \<and> normalize_fallback fstr v self =
     Inr (self\<lparr> s_state := fst (spec_normalize fstr v),
                s_attributes := snd (spec_normalize fstr v) \<rparr>)
   \<and> normalize_default fstr v self =
     Inr (self\<lparr> s_state := fst (spec_normalize fstr v),
                s_attributes := snd (spec_normalize fstr v) \<rparr>)"
  by (simp only: normalize_rendered_spec normalize_fallback_spec normalize_default_spec)

text \<open>
  Claim C8: normalization is total, deterministic and pure. For every value there is one
  pair of primary value and attributes, which depends on the value only, and the fragment
  returns (no \<open>KeyError\<close>, no other exception) with exactly that pair stored, whatever the
  sensor held before; every field other than these two is left as it was.
\<close>

theorem normalization_total_pure:
  "\<exists>p a. \<forall>self.
      normalize_default fstr v self = Inr (self\<lparr> s_state := p, s_attributes := a \<rparr>)
      \<and> normalize_fallback fstr v self = Inr (self\<lparr> s_state := p, s_attributes := a \<rparr>)
      \<and> normalize_rendered fstr v self = Inr (self\<lparr> s_state := p, s_attributes := a \<rparr>)"
proof (intro exI allI)
  fix self :: "'a sensor"
  show "normalize_default fstr v self =
          Inr (self\<lparr> s_state := fst (spec_normalize fstr v),
                     s_attributes := snd (spec_normalize fstr v) \<rparr>)
        \<and> normalize_fallback fstr v self =
          Inr (self\<lparr> s_state := fst (spec_normalize fstr v),
                     s_attributes := snd (spec_normalize fstr v) \<rparr>)
        \<and> normalize_rendered fstr v self =
          Inr (self\<lparr> s_state := fst (spec_normalize fstr v),
                     s_attributes := snd (spec_normalize fstr v) \<rparr>)"
    by (simp only: normalize_rendered_spec normalize_fallback_spec normalize_default_spec)
qed

text \<open>
  Claim C10: when the value under \<open>count\<close> (or, without \<open>count\<close>, under \<open>total\<close>) of a
  JSON object is not a scalar, the fragment without template and the fragment on the
  template output store that value as it is, so the state the host reads is then a list
  or a dict.
\<close>

theorem non_scalar_primary_value:
  "(map_of obj ''count'' = Some v \<or> (map_of obj ''count'' = None \<and> map_of obj ''total'' = Some v))
   \<and> \<not> is_scalar v \<longrightarrow>
     (\<exists>self'. normalize_default fstr (JDict obj) self = Inr self'
        \<and> state self' = v \<and> \<not> is_scalar (state self'))
     \<and> (\<exists>self'. normalize_rendered fstr (JDict obj) self = Inr self'
        \<and> state self' = v \<and> \<not> is_scalar (state self'))"
  by (auto simp: state_def dict_contains_map_of dict_getitem_Some)

theorem non_scalar_primary_value_witness:
  "state (projr (normalize_default unit_str (JDict [(''count'', JList [])]) sensor0)) = JList []
   \<and> state (projr (normalize_rendered unit_str
        (JDict [(''total'', JDict [(''n'', JScalar (PyInt 1))])]) sensor0)) =
      JDict [(''n'', JScalar (PyInt 1))]"
  using non_scalar_primary_value
          [of "[(''count'', JList [])]" "JList []" unit_str sensor0]
        non_scalar_primary_value
          [of "[(''total'', JDict [(''n'', JScalar (PyInt 1))])]"
              "JDict [(''n'', JScalar (PyInt 1))]" unit_str sensor0]
  by auto

section \<open>The constructor\<close>

lemma init_heap:
  "snd (init name url authorization headers scan_interval tpl h :: 'f sensor \<times> heap) =
     h @ [case authorization of
            None \<Rightarrow> h ! headers
          | Some v \<Rightarrow>
              if v \<noteq> [] then AList.update ''Authorization'' v (h ! headers) else h ! headers]"
  by (simp add: init_def dict_copy_def dict_setitem_def split: option.splits)

lemma init_self:
  "fst (init name url authorization headers scan_interval tpl h :: 'f sensor \<times> heap) =
     \<lparr> s_name = name, s_url = url, s_authorization = authorization,
       s_headers = length h, s_state = JScalar PyNone, s_attributes = [],
       s_available = True, s_scan_interval = scan_interval,
       s_attributes_template = tpl \<rparr>"
  by (simp add: init_def dict_copy_def Let_def split: option.splits)

text \<open>
  Claim C9: the constructor does not change the header mapping of its caller. It works on
  a copy at a new address: every dict that the store held before the call, the caller's
  one among them, is afterwards what it was, also when the authorization entry is added.
\<close>

theorem init_keeps_caller_headers:
  "take (length h)
     (snd (init name url authorization headers scan_interval tpl h :: 'f sensor \<times> heap)) = h
   \<and> s_headers
       (fst (init name url authorization headers scan_interval tpl h :: 'f sensor \<times> heap)) =
     length h
   \<and> (headers < length h \<longrightarrow>
        snd (init name url authorization headers scan_interval tpl h :: 'f sensor \<times> heap)
          ! headers = h ! headers
        \<and> s_headers
            (fst (init name url authorization headers scan_interval tpl h :: 'f sensor \<times> heap))
          \<noteq> headers)"
  by (simp add: init_heap init_self nth_append)

theorem init_keeps_caller_headers_witness:
  "(0::nat) < length heap_foo
   \<and> snd init_bearer ! 0 = [(''Authorization'', ''foo'')]
   \<and> snd init_bearer ! s_headers (fst init_bearer) = [(''Authorization'', ''Bearer xyz'')]"
proof -
  have "(0::nat) < length heap_foo"
    by (simp add: heap_foo_def)
  with init_keeps_caller_headers
         [where h = heap_foo and headers = 0 and name = "''JSON API Sensor''"
            and url = "''http://api.example/v1''" and authorization = "Some ''Bearer xyz''"
            and scan_interval = 300 and tpl = None and ?'f = unit]
  have "snd init_bearer ! 0 = heap_foo ! 0"
    by (simp add: init_bearer_def)
  moreover have "snd init_bearer ! s_headers (fst init_bearer) = [(''Authorization'', ''Bearer xyz'')]"
    by (simp add: init_bearer_def init_heap init_self heap_foo_def)
  ultimately show ?thesis
    by (simp add: heap_foo_def)
qed

section \<open>The request\<close>

lemma try_fetch_GET:
  "\<exists>rest. fst (try_fetch env h self) = GET (s_url self) (h ! s_headers self) # rest"
  by (auto simp: try_fetch_def split: sum.splits prod.splits)

lemma async_update_GET:
  "\<exists>rest. fst (async_update env h self) = GET (s_url self) (h ! s_headers self) # rest"
  using try_fetch_GET [of env h self]
  by (auto simp: async_update_def split: sum.splits prod.splits exn.splits)

text \<open>
  Claim C6, as amended: the first thing a poll of the constructed sensor does is a GET on
  the configured URL. When the configured authorization value is a non-empty string, the
  headers of that request are the configured header mapping with the entry
  \<open>Authorization\<close> set to that value: the value replaces an \<open>Authorization\<close> entry that
  the mapping already has, and every other entry is as configured. When the configured
  authorization value is the empty string, it counts as not configured: the headers of
  the request are the configured header mapping as it is, an \<open>Authorization\<close> entry
  of its own included.
\<close>

theorem authorization_header_merged:
  "(authorization \<noteq> [] \<longrightarrow>
      (\<exists>rest.
         fst (async_update env
                (snd (init name url (Some authorization) headers scan_interval tpl h
                        :: 'f sensor \<times> heap))
                (fst (init name url (Some authorization) headers scan_interval tpl h
                        :: 'f sensor \<times> heap))) =
           GET url (AList.update ''Authorization'' authorization (h ! headers)) # rest)
      \<and> map_of (AList.update ''Authorization'' authorization (h ! headers)) =
          (map_of (h ! headers))(''Authorization'' \<mapsto> authorization))
   \<and> (authorization = [] \<longrightarrow>
      (\<exists>rest.
         fst (async_update env
                (snd (init name url (Some authorization) headers scan_interval tpl h
                        :: 'f sensor \<times> heap))
                (fst (init name url (Some authorization) headers scan_interval tpl h
                        :: 'f sensor \<times> heap))) =
           GET url (h ! headers) # rest))"
proof -
  let ?i = "init name url (Some authorization) headers scan_interval tpl h :: 'f sensor \<times> heap"
  have url: "s_url (fst ?i) = url"
    by (simp add: init_self)
  have sent: "\<exists>rest. fst (async_update env (snd ?i) (fst ?i)) =
                 GET url (snd ?i ! s_headers (fst ?i)) # rest"
    using async_update_GET [of env "snd ?i" "fst ?i"] by (simp only: url)
  have merged: "authorization \<noteq> [] \<Longrightarrow>
      snd ?i ! s_headers (fst ?i) = AList.update ''Authorization'' authorization (h ! headers)"
    by (simp add: init_heap init_self)
  have plain: "authorization = [] \<Longrightarrow> snd ?i ! s_headers (fst ?i) = h ! headers"
    by (simp add: init_heap init_self)
  have ne: "authorization \<noteq> [] \<longrightarrow>
      (\<exists>rest. fst (async_update env (snd ?i) (fst ?i)) =
         GET url (AList.update ''Authorization'' authorization (h ! headers)) # rest)
      \<and> map_of (AList.update ''Authorization'' authorization (h ! headers)) =
          (map_of (h ! headers))(''Authorization'' \<mapsto> authorization)"
  proof (intro impI conjI)
    assume a: "authorization \<noteq> []"
    from sent show "\<exists>rest. fst (async_update env (snd ?i) (fst ?i)) =
         GET url (AList.update ''Authorization'' authorization (h ! headers)) # rest"
      by (simp only: merged [OF a])
    show "map_of (AList.update ''Authorization'' authorization (h ! headers)) =
          (map_of (h ! headers))(''Authorization'' \<mapsto> authorization)"
      by (simp add: update_conv')
  qed
  have em: "authorization = [] \<longrightarrow>
      (\<exists>rest. fst (async_update env (snd ?i) (fst ?i)) = GET url (h ! headers) # rest)"
  proof
    assume a: "authorization = []"
    from sent show "\<exists>rest. fst (async_update env (snd ?i) (fst ?i)) =
         GET url (h ! headers) # rest"
      by (simp only: plain [OF a])
  qed
  from ne em show ?thesis
    by (rule conjI)
qed

theorem authorization_header_merged_witness:
  "''Bearer xyz'' \<noteq> []
   \<and> hd (fst (async_update env_refused (snd init_bearer) (fst init_bearer))) =
       GET ''http://api.example/v1'' [(''Authorization'', ''Bearer xyz'')]
   \<and> hd (fst (async_update env_http_500
         (snd (init ''JSON API Sensor'' ''http://api.example/v1'' (Some []) 0 300 None
                 [[(''X-Api-Key'', ''k''), (''Accept'', ''application/json'')]]
               :: unit sensor \<times> heap))
         (fst (init ''JSON API Sensor'' ''http://api.example/v1'' (Some []) 0 300 None
                 [[(''X-Api-Key'', ''k''), (''Accept'', ''application/json'')]]
               :: unit sensor \<times> heap)))) =
       GET ''http://api.example/v1'' [(''X-Api-Key'', ''k''), (''Accept'', ''application/json'')]"
proof -
  have ne: "''Bearer xyz'' \<noteq> []"
    by simp
  from authorization_header_merged
         [where authorization = "''Bearer xyz''" and env = env_refused
            and name = "''JSON API Sensor''" and url = "''http://api.example/v1''"
            and headers = 0 and scan_interval = 300 and tpl = None and h = heap_foo
            and ?'f = unit]
  obtain rest where
    "fst (async_update env_refused (snd init_bearer) (fst init_bearer)) =
       GET ''http://api.example/v1'' (AList.update ''Authorization'' ''Bearer xyz'' (heap_foo ! 0))
         # rest"
    unfolding init_bearer_def using ne by blast
  then have a: "hd (fst (async_update env_refused (snd init_bearer) (fst init_bearer))) =
       GET ''http://api.example/v1'' [(''Authorization'', ''Bearer xyz'')]"
    by (simp add: heap_foo_def)
  from authorization_header_merged
         [where authorization = "[]" and env = env_http_500
            and name = "''JSON API Sensor''" and url = "''http://api.example/v1''"
            and headers = 0 and scan_interval = 300 and tpl = None
            and h = "[[(''X-Api-Key'', ''k''), (''Accept'', ''application/json'')]]"
            and ?'f = unit]
  obtain rest' where
    "fst (async_update env_http_500
         (snd (init ''JSON API Sensor'' ''http://api.example/v1'' (Some []) 0 300 None
                 [[(''X-Api-Key'', ''k''), (''Accept'', ''application/json'')]]
               :: unit sensor \<times> heap))
         (fst (init ''JSON API Sensor'' ''http://api.example/v1'' (Some []) 0 300 None
                 [[(''X-Api-Key'', ''k''), (''Accept'', ''application/json'')]]
               :: unit sensor \<times> heap))) =
       GET ''http://api.example/v1''
         ([[(''X-Api-Key'', ''k''), (''Accept'', ''application/json'')]] ! 0) # rest'"
    by blast
  then have b: "hd (fst (async_update env_http_500
         (snd (init ''JSON API Sensor'' ''http://api.example/v1'' (Some []) 0 300 None
                 [[(''X-Api-Key'', ''k''), (''Accept'', ''application/json'')]]
               :: unit sensor \<times> heap))
         (fst (init ''JSON API Sensor'' ''http://api.example/v1'' (Some []) 0 300 None
                 [[(''X-Api-Key'', ''k''), (''Accept'', ''application/json'')]]
               :: unit sensor \<times> heap)))) =
       GET ''http://api.example/v1'' [(''X-Api-Key'', ''k''), (''Accept'', ''application/json'')]"
    by simp
  from ne a b show ?thesis
    by blast
qed

theorem empty_authorization_counterexample:
  "hd (fst (async_update env_refused (snd init_empty_auth) (fst init_empty_auth))) =
     GET ''http://api.example/v1'' [(''Authorization'', ''foo'')]
   \<and> GET ''http://api.example/v1'' [(''Authorization'', ''foo'')] \<noteq>
     GET ''http://api.example/v1'' (AList.update ''Authorization'' [] (heap_foo ! 0))"
  by (simp add: init_empty_auth_def init_heap init_self heap_foo_def async_update_def
        try_fetch_def env_refused_def)

section \<open>The poll cycle\<close>

lemma async_update_fetch_raises:
  "session_get env (s_url self) (h ! s_headers self) = Inl err \<Longrightarrow> isinstance_Exception err \<Longrightarrow>
   snd (async_update env h self) = Inr (self\<lparr> s_available := False \<rparr>)"
  by (cases err) (simp_all add: async_update_def try_fetch_def)

lemma async_update_not_200:
  "session_get env (s_url self) (h ! s_headers self) = Inr response \<Longrightarrow> status response \<noteq> 200 \<Longrightarrow>
   async_update env h self =
     ([GET (s_url self) (h ! s_headers self),
       Error (''Error fetching data: HTTP '' @ str_int (status response))],
      Inr (self\<lparr> s_available := False \<rparr>))"
  by (simp add: async_update_def try_fetch_def)

lemma async_update_body_raises:
  "session_get env (s_url self) (h ! s_headers self) = Inr response \<Longrightarrow> status response = 200 \<Longrightarrow>
   json_body response = Inl err \<Longrightarrow> isinstance_Exception err \<Longrightarrow>
   snd (async_update env h self) = Inr (self\<lparr> s_available := False \<rparr>)"
  by (cases err) (simp_all add: async_update_def try_fetch_def)

lemma process_data_render_raises:
  "s_attributes_template self = Some tpl \<Longrightarrow> tpl \<noteq> [] \<Longrightarrow>
   async_render env tpl data = Inl err \<Longrightarrow> isinstance_Exception err \<Longrightarrow>
   process_data env data self =
     ([Debug ''Applying attributes_template to data'',
       Error (''Error processing attributes_template: '' @ exn_str err)],
      Inr (self\<lparr> s_state := fst (spec_normalize (float_str env) data),
                 s_attributes := snd (spec_normalize (float_str env) data) \<rparr>))"
  by (simp add: process_data_def try_template_def normalize_fallback_spec)

lemma process_data_loads_raises:
  "s_attributes_template self = Some tpl \<Longrightarrow> tpl \<noteq> [] \<Longrightarrow>
   async_render env tpl data = Inr txt \<Longrightarrow> json_loads env txt = Inl err \<Longrightarrow>
   isinstance_Exception err \<Longrightarrow>
   process_data env data self =
     ([Debug ''Applying attributes_template to data'',
       Debug (''Template rendered: '' @ take 200 txt),
       Error (''Error processing attributes_template: '' @ exn_str err)],
      Inr (self\<lparr> s_state := fst (spec_normalize (float_str env) data),
                 s_attributes := snd (spec_normalize (float_str env) data) \<rparr>))"
  by (simp add: process_data_def try_template_def normalize_fallback_spec)

lemma async_update_ok:
  "session_get env (s_url self) (h ! s_headers self) = Inr response \<Longrightarrow> status response = 200 \<Longrightarrow>
   json_body response = Inr data \<Longrightarrow> process_data env data self = (lg, Inr self') \<Longrightarrow>
   async_update env h self =
     (GET (s_url self) (h ! s_headers self) # lg @
        [Debug (''Successfully fetched data from '' @ s_url self)],
      Inr (self'\<lparr> s_available := True \<rparr>))"
  by (simp add: async_update_def try_fetch_def)

text \<open>
  Claim C5: when the poll fails at the fetch (the GET raises a transport error, a timeout
  or another exception; the status is not 200; or the status is 200 and reading the body
  as JSON raises), \<open>async_update\<close> returns without an exception and the sensor is the one
  before the call with the availability flag false: the state and the attributes of the
  last successful cycle, and every other field, are kept.
\<close>

theorem fetch_failure_only_unavailable:
  "(session_get env (s_url self) (h ! s_headers self) = Inl err \<and> isinstance_Exception err \<longrightarrow>
      snd (async_update env h self) = Inr (self\<lparr> s_available := False \<rparr>))
   \<and> (session_get env (s_url self) (h ! s_headers self) = Inr response
        \<and> status response \<noteq> 200 \<longrightarrow>
      snd (async_update env h self) = Inr (self\<lparr> s_available := False \<rparr>))
   \<and> (session_get env (s_url self) (h ! s_headers self) = Inr response
        \<and> status response = 200 \<and> json_body response = Inl err \<and> isinstance_Exception err \<longrightarrow>
      snd (async_update env h self) = Inr (self\<lparr> s_available := False \<rparr>))"
  using async_update_fetch_raises [of env self h err]
    async_update_not_200 [of env self h response]
    async_update_body_raises [of env self h response err]
  by simp

theorem fetch_failure_only_unavailable_witness:
  "snd (async_update env_refused heap0 sensor_tpl) = Inr (sensor_tpl\<lparr> s_available := False \<rparr>)
   \<and> snd (async_update env_http_500 heap0 sensor_tpl) = Inr (sensor_tpl\<lparr> s_available := False \<rparr>)
   \<and> snd (async_update env_body_not_json heap0 sensor_tpl) =
       Inr (sensor_tpl\<lparr> s_available := False \<rparr>)
   \<and> state (sensor_tpl\<lparr> s_available := False \<rparr>) = JScalar (PyInt 4)
   \<and> extra_state_attributes (sensor_tpl\<lparr> s_available := False \<rparr>) =
       [(''count'', JScalar (PyInt 4))]
   \<and> \<not> available (sensor_tpl\<lparr> s_available := False \<rparr>)"
proof -
  have a: "session_get env_refused (s_url sensor_tpl) (heap0 ! s_headers sensor_tpl) =
             Inl (ClientError ''Cannot connect to host'')
           \<and> isinstance_Exception (ClientError ''Cannot connect to host'')"
    by (simp add: env_refused_def)
  have b: "session_get env_http_500 (s_url sensor_tpl) (heap0 ! s_headers sensor_tpl) =
             Inr \<lparr> status = 500, json_body = Inr (JList []) \<rparr>
           \<and> status \<lparr> status = 500, json_body = Inr (JList [] :: unit json) \<rparr> \<noteq> 200"
    by (simp add: env_http_500_def)
  have c: "session_get env_body_not_json (s_url sensor_tpl) (heap0 ! s_headers sensor_tpl) =
             Inr \<lparr> status = 200, json_body = Inl (Exception ''Expecting value'') \<rparr>
           \<and> status \<lparr> status = 200, json_body = Inl (Exception ''Expecting value'') :: exn + unit json \<rparr> = 200
           \<and> json_body \<lparr> status = 200, json_body = Inl (Exception ''Expecting value'') :: exn + unit json \<rparr> =
               Inl (Exception ''Expecting value'')
           \<and> isinstance_Exception (Exception ''Expecting value'')"
    by (simp add: env_body_not_json_def)
  have d: "state (sensor_tpl\<lparr> s_available := False \<rparr>) = JScalar (PyInt 4)
           \<and> extra_state_attributes (sensor_tpl\<lparr> s_available := False \<rparr>) =
               [(''count'', JScalar (PyInt 4))]
           \<and> \<not> available (sensor_tpl\<lparr> s_available := False \<rparr>)"
    by (simp add: state_def extra_state_attributes_def available_def sensor_tpl_def)
  from a b c d show ?thesis
    using fetch_failure_only_unavailable
            [where env = env_refused and self = sensor_tpl and h = heap0
               and err = "ClientError ''Cannot connect to host''"]
          fetch_failure_only_unavailable
            [where env = env_http_500 and self = sensor_tpl and h = heap0
               and response = "\<lparr> status = 500, json_body = Inr (JList []) \<rparr>"]
          fetch_failure_only_unavailable
            [where env = env_body_not_json and self = sensor_tpl and h = heap0
               and response = "\<lparr> status = 200, json_body = Inl (Exception ''Expecting value'') \<rparr>"
               and err = "Exception ''Expecting value''"]
    by blast
qed

text \<open>
  Claim C4: when the fetch succeeds (status 200, body read as JSON) and the configured
  template fails, either while rendering or while its rendered text is parsed,
  \<open>async_update\<close> returns without an exception; the state and the attributes are those
  of the normalizer on the fetched, unrendered value; the availability flag is true; and
  the failure appears as one error line of the log, between debug lines.
\<close>

theorem render_failure_falls_back:
  "session_get env (s_url self) (h ! s_headers self) = Inr response \<and> status response = 200
   \<and> json_body response = Inr data \<and> s_attributes_template self = Some tpl \<and> tpl \<noteq> []
   \<and> isinstance_Exception err \<longrightarrow>
   (async_render env tpl data = Inl err \<longrightarrow>
      async_update env h self =
        ([GET (s_url self) (h ! s_headers self),
          Debug ''Applying attributes_template to data'',
          Error (''Error processing attributes_template: '' @ exn_str err),
          Debug (''Successfully fetched data from '' @ s_url self)],
         Inr (self\<lparr> s_state := fst (spec_normalize (float_str env) data),
                    s_attributes := snd (spec_normalize (float_str env) data),
                    s_available := True \<rparr>)))
   \<and> (async_render env tpl data = Inr rendered \<and> json_loads env rendered = Inl err \<longrightarrow>
      async_update env h self =
        ([GET (s_url self) (h ! s_headers self),
          Debug ''Applying attributes_template to data'',
          Debug (''Template rendered: '' @ take 200 rendered),
          Error (''Error processing attributes_template: '' @ exn_str err),
          Debug (''Successfully fetched data from '' @ s_url self)],
         Inr (self\<lparr> s_state := fst (spec_normalize (float_str env) data),
                    s_attributes := snd (spec_normalize (float_str env) data),
                    s_available := True \<rparr>)))"
proof (intro impI)
  assume H: "session_get env (s_url self) (h ! s_headers self) = Inr response
    \<and> status response = 200 \<and> json_body response = Inr data
    \<and> s_attributes_template self = Some tpl \<and> tpl \<noteq> [] \<and> isinstance_Exception err"
  then have fetch: "session_get env (s_url self) (h ! s_headers self) = Inr response"
    "status response = 200" "json_body response = Inr data"
    and tpl: "s_attributes_template self = Some tpl" "tpl \<noteq> []"
    and err: "isinstance_Exception err"
    by simp_all
  show "(async_render env tpl data = Inl err \<longrightarrow>
      async_update env h self =
        ([GET (s_url self) (h ! s_headers self),
          Debug ''Applying attributes_template to data'',
          Error (''Error processing attributes_template: '' @ exn_str err),
          Debug (''Successfully fetched data from '' @ s_url self)],
         Inr (self\<lparr> s_state := fst (spec_normalize (float_str env) data),
                    s_attributes := snd (spec_normalize (float_str env) data),
                    s_available := True \<rparr>)))
   \<and> (async_render env tpl data = Inr rendered \<and> json_loads env rendered = Inl err \<longrightarrow>
      async_update env h self =
        ([GET (s_url self) (h ! s_headers self),
          Debug ''Applying attributes_template to data'',
          Debug (''Template rendered: '' @ take 200 rendered),
          Error (''Error processing attributes_template: '' @ exn_str err),
          Debug (''Successfully fetched data from '' @ s_url self)],
         Inr (self\<lparr> s_state := fst (spec_normalize (float_str env) data),
                    s_attributes := snd (spec_normalize (float_str env) data),
                    s_available := True \<rparr>)))"
  proof (intro conjI impI)
    assume r: "async_render env tpl data = Inl err"
    have pd: "process_data env data self =
      ([Debug ''Applying attributes_template to data'',
        Error (''Error processing attributes_template: '' @ exn_str err)],
       Inr (self\<lparr> s_state := fst (spec_normalize (float_str env) data),
                  s_attributes := snd (spec_normalize (float_str env) data) \<rparr>))"
      using tpl r err by (rule process_data_render_raises)
    from async_update_ok [OF fetch pd]
    show "async_update env h self =
        ([GET (s_url self) (h ! s_headers self),
          Debug ''Applying attributes_template to data'',
          Error (''Error processing attributes_template: '' @ exn_str err),
          Debug (''Successfully fetched data from '' @ s_url self)],
         Inr (self\<lparr> s_state := fst (spec_normalize (float_str env) data),
                    s_attributes := snd (spec_normalize (float_str env) data),
                    s_available := True \<rparr>))"
      by simp
  next
    assume "async_render env tpl data = Inr rendered \<and> json_loads env rendered = Inl err"
    then have r: "async_render env tpl data = Inr rendered" and l: "json_loads env rendered = Inl err"
      by simp_all
    have pd: "process_data env data self =
      ([Debug ''Applying attributes_template to data'',
        Debug (''Template rendered: '' @ take 200 rendered),
        Error (''Error processing attributes_template: '' @ exn_str err)],
       Inr (self\<lparr> s_state := fst (spec_normalize (float_str env) data),
                  s_attributes := snd (spec_normalize (float_str env) data) \<rparr>))"
      using tpl r l err by (rule process_data_loads_raises)
    from async_update_ok [OF fetch pd]
    show "async_update env h self =
        ([GET (s_url self) (h ! s_headers self),
          Debug ''Applying attributes_template to data'',
          Debug (''Template rendered: '' @ take 200 rendered),
          Error (''Error processing attributes_template: '' @ exn_str err),
          Debug (''Successfully fetched data from '' @ s_url self)],
         Inr (self\<lparr> s_state := fst (spec_normalize (float_str env) data),
                    s_attributes := snd (spec_normalize (float_str env) data),
                    s_available := True \<rparr>))"
      by simp
  qed
qed

theorem render_failure_falls_back_witness:
  "async_update env_render_raises heap0 sensor_tpl =
     ([GET ''http://api.example/v1'' [],
       Debug ''Applying attributes_template to data'',
       Error ''Error processing attributes_template: UndefinedError'',
       Debug ''Successfully fetched data from http://api.example/v1''],
      Inr (sensor_tpl\<lparr> s_state := JScalar (PyInt 17),
             s_attributes := [(''total'', JScalar (PyInt 17)), (''region'', JScalar (PyStr ''eu''))],
             s_available := True \<rparr>))
   \<and> async_update env_render_not_json heap0 sensor_tpl =
     ([GET ''http://api.example/v1'' [],
       Debug ''Applying attributes_template to data'',
       Debug ''Template rendered: unknown'',
       Error ''Error processing attributes_template: Expecting value'',
       Debug ''Successfully fetched data from http://api.example/v1''],
      Inr (sensor_tpl\<lparr> s_state := JScalar (PyInt 17),
             s_attributes := [(''total'', JScalar (PyInt 17)), (''region'', JScalar (PyStr ''eu''))],
             s_available := True \<rparr>))"
proof -
  have norm: "spec_normalize unit_str payload0 =
      (JScalar (PyInt 17), [(''total'', JScalar (PyInt 17)), (''region'', JScalar (PyStr ''eu''))])"
    by (simp add: spec_normalize_def spec_primary_value_def spec_attributes_def payload0_def)
  have s: "s_url sensor_tpl = ''http://api.example/v1''" "heap0 ! s_headers sensor_tpl = []"
    "s_attributes_template sensor_tpl = Some ''{{ value_json.data }}''"
    by (simp_all add: sensor_tpl_def sensor0_def heap0_def)
  have a: "async_update env_render_raises heap0 sensor_tpl =
     ([GET ''http://api.example/v1'' [],
       Debug ''Applying attributes_template to data'',
       Error ''Error processing attributes_template: UndefinedError'',
       Debug ''Successfully fetched data from http://api.example/v1''],
      Inr (sensor_tpl\<lparr> s_state := JScalar (PyInt 17),
             s_attributes := [(''total'', JScalar (PyInt 17)), (''region'', JScalar (PyStr ''eu''))],
             s_available := True \<rparr>))"
    using render_failure_falls_back
            [where env = env_render_raises and self = sensor_tpl and h = heap0
               and response = "\<lparr> status = 200, json_body = Inr payload0 \<rparr>"
               and data = payload0 and tpl = "''{{ value_json.data }}''"
               and err = "Exception ''UndefinedError''" and rendered = "''unknown''"]
    by (simp add: s norm) (simp add: env_render_raises_def norm)
  have b: "async_update env_render_not_json heap0 sensor_tpl =
     ([GET ''http://api.example/v1'' [],
       Debug ''Applying attributes_template to data'',
       Debug ''Template rendered: unknown'',
       Error ''Error processing attributes_template: Expecting value'',
       Debug ''Successfully fetched data from http://api.example/v1''],
      Inr (sensor_tpl\<lparr> s_state := JScalar (PyInt 17),
             s_attributes := [(''total'', JScalar (PyInt 17)), (''region'', JScalar (PyStr ''eu''))],
             s_available := True \<rparr>))"
    using render_failure_falls_back
            [where env = env_render_not_json and self = sensor_tpl and h = heap0
               and response = "\<lparr> status = 200, json_body = Inr payload0 \<rparr>"
               and data = payload0 and tpl = "''{{ value_json.data }}''"
               and err = "Exception ''Expecting value''" and rendered = "''unknown''"]
    by (simp add: s norm) (simp add: env_render_not_json_def norm)
  from a b show ?thesis
    by (rule conjI)
qed

end
